theory Spec2Isabelle
  imports Main "HOL-Library.Sublist"
begin

section \<open>The code-block pattern\<close>

text \<open>
  The module compiles one regular expression,
  \<^verbatim>\<open>pattern = re.compile(r"```python\n(.*?)\n```", re.DOTALL)\<close>.
  It is a literal opening fence, one capture group holding a lazy repetition of the
  wildcard (which under DOTALL accepts every character, the line feed included), and a
  literal closing fence. The three parts are modelled one by one, the way the
  backtracking matcher runs them.
\<close>

definition fence_open :: string where
  "fence_open = ''```python'' @ [CHR 0x0A]"

definition fence_close :: string where
  "fence_close = CHR 0x0A # ''```''"

text \<open>
  \<open>lazy_group lit s\<close> runs the group \<^verbatim>\<open>(.*?)\<close> followed by the literal \<open>lit\<close> on the
  remaining input \<open>s\<close>: the lazy repetition first tries to stop, so the literal is tested
  at the current position; only when that fails does the wildcard take one more character.
  At the end of the input no character is left to take and the attempt fails. The
  value is the text captured by the group.
\<close>

fun lazy_group :: "string \<Rightarrow> string \<Rightarrow> string option" where
  "lazy_group lit [] = (if prefix lit [] then Some [] else None)"
| "lazy_group lit (c # cs) =
     (if prefix lit (c # cs) then Some []
      else map_option ((#) c) (lazy_group lit cs))"

text \<open>One attempt of the whole pattern, anchored at the start of \<open>s\<close>.\<close>

definition match_at :: "string \<Rightarrow> string option" where
  "match_at s =
     (if prefix fence_open s
      then lazy_group fence_close (drop (length fence_open) s)
      else None)"

text \<open>
  \<^verbatim>\<open>pattern.search\<close> tries every start position from left to right, the position at
  the end of the text included, and keeps the first attempt that succeeds. The value is
  group 1 of the match, or \<open>None\<close> when no position matches.
\<close>

fun pattern_search :: "string \<Rightarrow> string option" where
  "pattern_search [] = match_at []"
| "pattern_search (c # cs) =
     (case match_at (c # cs) of
        Some g \<Rightarrow> Some g
      | None \<Rightarrow> pattern_search cs)"

text \<open>
  \<^verbatim>\<open>match = pattern.search(llm_response)\<close>
  \<^verbatim>\<open>return match.group(1) if match else ""\<close>
\<close>

definition match_code_blocks :: "string \<Rightarrow> string" where
  "match_code_blocks llm_response =
     (case pattern_search llm_response of
        Some g \<Rightarrow> g
      | None \<Rightarrow> [])"


section \<open>Values, exceptions and the observable trace\<close>

text \<open>
  An exception that leaves a function is the \<open>Inl\<close> branch of its result. \<open>IndexError\<close>
  and \<open>TypeError\<close> are raised by the interpreter itself (indexing an empty list, handing
  \<open>None\<close> to \<^verbatim>\<open>pattern.search\<close>); \<open>KeyError\<close> by a dictionary lookup; \<open>Raised msg\<close> is
  any exception coming out of an external library, with \<open>msg\<close> its \<^verbatim>\<open>str()\<close>.
\<close>

datatype py_exception = IndexError | TypeError | KeyError | Raised string

text \<open>
  Attribute values, as far as the program looks at them: it only ever tests their truth
  value and hands them on. \<open>PyObject\<close> stands for any instance of a class without
  \<^verbatim>\<open>__bool__\<close> or \<^verbatim>\<open>__len__\<close>, which is always true.
\<close>

datatype pyval = PyNone | PyStr string | PyObject nat

fun truthy :: "pyval \<Rightarrow> bool" where
  "truthy PyNone = False"
| "truthy (PyStr s) = (s \<noteq> [])"
| "truthy (PyObject h) = True"

datatype py_class = DataFrame | Series | OtherClass

text \<open>
  One element of \<^verbatim>\<open>exec.results\<close>. The program never relies on its class, only on
  \<^verbatim>\<open>hasattr\<close>, on attribute values and on one \<^verbatim>\<open>isinstance\<close> test, so an element is its
  attribute dictionary and its class.
\<close>

record result =
  attrs :: "string \<rightharpoonup> pyval"
  cls :: py_class

definition hasattr :: "result \<Rightarrow> string \<Rightarrow> bool" where
  "hasattr r a = (attrs r a \<noteq> None)"

text \<open>The error object of an execution; \<open>error_str\<close> is what an f-string prints for it.\<close>

datatype execution_error = ExecutionError (error_str: string)

record execution =
  results :: "result list"
  error :: "execution_error option"

text \<open>
  What one call of \<^verbatim>\<open>run_code\<close> hands back when it returns: the execution object, and the
  text that was written to the host's \<^verbatim>\<open>sys.stdout\<close> and \<^verbatim>\<open>sys.stderr\<close> while the call
  ran, which the two \<^verbatim>\<open>redirect_\<close> contexts collect.
\<close>

record run_report =
  written_stdout :: string
  written_stderr :: string
  returned :: execution

record uploaded_file =
  name :: string
  bytes :: string

text \<open>
  The sandbox session: \<^verbatim>\<open>run_code\<close> returns a report or raises; \<^verbatim>\<open>files.write\<close> returns
  nothing or raises (\<open>Some msg\<close>).
\<close>

record sandbox =
  run_code :: "string \<Rightarrow> string + run_report"
  files_write :: "string \<Rightarrow> uploaded_file \<Rightarrow> string option"

text \<open>A chat message of the request is a dictionary with the keys role and content.\<close>

type_synonym message = "(string \<times> string) list"

record chat_message =
  content :: "string option"

record response =
  choices :: "chat_message list"

type_synonym dataframe = "string list list"

type_synonym image = string

text \<open>
  The libraries the module calls: \<^verbatim>\<open>pd.read_csv\<close>, the \<^verbatim>\<open>Sandbox\<close> constructor, the
  completion endpoint of a \<^verbatim>\<open>Together\<close> client (API key, model, messages), and
  \<^verbatim>\<open>Image.open(BytesIO(base64.b64decode(...)))\<close>. Each returns or raises.
\<close>

record env =
  read_csv :: "uploaded_file \<Rightarrow> string + dataframe"
  new_sandbox :: "string \<Rightarrow> string + sandbox"
  completions_create :: "string \<Rightarrow> string \<Rightarrow> message list \<Rightarrow> string + response"
  open_image :: "pyval \<Rightarrow> string + image"

record session_state =
  together_api_key :: string
  e2b_api_key :: string
  model_name :: string

datatype stream = Stdout | Stderr

text \<open>
  Everything the program does to the outside is recorded, in order, as a list of events:
  the calls to the completion service and to the sandbox (recorded when the call is made,
  whatever its outcome), the lines printed to the host's streams, and the Streamlit
  output calls.
\<close>

datatype event =
    SandboxCreate string
  | SandboxExit
  | FilesWrite string uploaded_file
  | RunCode string
  | CompletionsCreate string string "message list"
  | Print stream string
  | StSpinner string
  | StWarning string
  | StError string
  | StTitle string
  | StHeader string
  | StInfo string
  | StMarkdown string
  | StSubheader string
  | StWrite string
  | StWriteResult result
  | StDataframe dataframe
  | StDataframeResult result
  | StImage image string
  | StPyplot pyval
  | StPlotlyChart result

type_synonym 'a io = "event list \<times> (py_exception + 'a)"

section \<open>Running code in the sandbox\<close>

text \<open>
  \<^verbatim>\<open>code_interpret\<close>: the call to \<^verbatim>\<open>run_code\<close> sits inside the redirections; an exception
  from it leaves the function at once. After the call the collected stderr text, then the
  collected stdout text, are printed when not empty; then \<^verbatim>\<open>exec.error\<close> decides between
  \<^verbatim>\<open>return None\<close> and \<^verbatim>\<open>return exec.results\<close>.
\<close>

definition code_interpret :: "sandbox \<Rightarrow> string \<Rightarrow> result list option io" where
  "code_interpret e2b_code_interpreter code =
     (case run_code e2b_code_interpreter code of
        Inl msg \<Rightarrow>
          ([StSpinner ''Executing code in E2B sandbox...'', RunCode code], Inl (Raised msg))
      | Inr rep \<Rightarrow>
          (let exec = returned rep;
               shown_stderr =
                 (if written_stderr rep \<noteq> []
                  then [Print Stderr ''[Code Interpreter Warnings/Errors]'',
                        Print Stderr (written_stderr rep)]
                  else []);
               shown_stdout =
                 (if written_stdout rep \<noteq> []
                  then [Print Stdout ''[Code Interpreter Output]'',
                        Print Stdout (written_stdout rep)]
                  else []);
               called = [StSpinner ''Executing code in E2B sandbox...'', RunCode code]
           in case error exec of
                Some e \<Rightarrow>
                  (called @ shown_stderr @ shown_stdout
                     @ [Print Stderr (''[Code Interpreter ERROR] '' @ error_str e)],
                   Inr None)
              | None \<Rightarrow>
                  (called @ shown_stderr @ shown_stdout, Inr (Some (results exec)))))"

section \<open>One turn with the completion service\<close>

text \<open>
  The f-string of \<^verbatim>\<open>chat_with_llm\<close>: four lines, the dataset path interpolated twice,
  each time between apostrophes.
\<close>

definition system_prompt :: "string \<Rightarrow> string" where
  "system_prompt dataset_path =
     ''You'' @ [CHR 0x27] @ ''re a Python data scientist and data visualization expert.''
     @ [CHR 0x0A]
     @ ''You are given a dataset at path '' @ [CHR 0x27] @ dataset_path @ [CHR 0x27]
     @ '' and also the user'' @ [CHR 0x27] @ ''s query.''
     @ [CHR 0x0A]
     @ ''You need to analyze the dataset and answer the user'' @ [CHR 0x27]
     @ ''s query with a response and you run Python code to solve them.''
     @ [CHR 0x0A]
     @ ''IMPORTANT: Always use the dataset path variable '' @ [CHR 0x27] @ dataset_path
     @ [CHR 0x27] @ '' in your code when reading the CSV file.''"

text \<open>
  \<^verbatim>\<open>chat_with_llm\<close> reads the API key and the model from the session state, sends the
  two messages, takes \<^verbatim>\<open>response.choices[0].message\<close> and extracts the code from its
  content. A non-empty extraction is run in the sandbox and the pair of its results and
  the reply is returned; an empty one gives a warning and the pair of \<open>None\<close> and
  the reply.
\<close>

definition chat_with_llm ::
  "env \<Rightarrow> session_state \<Rightarrow> sandbox \<Rightarrow> string \<Rightarrow> string
     \<Rightarrow> (result list option \<times> string) io" where
  "chat_with_llm libs state e2b_code_interpreter user_message dataset_path =
     (let messages =
            [[(''role'', ''system''), (''content'', system_prompt dataset_path)],
             [(''role'', ''user''), (''content'', user_message)]];
          asked =
            [StSpinner ''Getting response from Together AI LLM model...'',
             CompletionsCreate (together_api_key state) (model_name state) messages]
      in case completions_create libs (together_api_key state) (model_name state) messages of
           Inl msg \<Rightarrow> (asked, Inl (Raised msg))
         | Inr response \<Rightarrow>
             (case choices response of
                [] \<Rightarrow> (asked, Inl IndexError)
              | response_message # others \<Rightarrow>
                  (case content response_message of
                     None \<Rightarrow> (asked, Inl TypeError)
                   | Some reply \<Rightarrow>
                       (let python_code = match_code_blocks reply
                        in if python_code \<noteq> []
                           then (case code_interpret e2b_code_interpreter python_code of
                                   (trace, Inl exn) \<Rightarrow> (asked @ trace, Inl exn)
                                 | (trace, Inr code_results) \<Rightarrow>
                                     (asked @ trace, Inr (code_results, reply)))
                           else (asked @ [StWarning
                                   ''No Python code block detected in LLM response.''],
                                 Inr (None, reply))))))"

section \<open>Staging the dataset\<close>

text \<open>
  \<^verbatim>\<open>upload_dataset\<close>: the path is \<^verbatim>\<open>f"./{uploaded_file.name}"\<close>; the file is written
  there and the path returned. A failing write is reported with \<^verbatim>\<open>st.error\<close> and raised
  again.
\<close>

definition upload_dataset :: "sandbox \<Rightarrow> uploaded_file \<Rightarrow> string io" where
  "upload_dataset code_interpreter file =
     (let dataset_path = ''./'' @ name file
      in case files_write code_interpreter dataset_path file of
           None \<Rightarrow> ([FilesWrite dataset_path file], Inr dataset_path)
         | Some msg \<Rightarrow>
             ([FilesWrite dataset_path file,
               StError (''Error during file upload: '' @ msg)],
              Inl (Raised msg)))"

section \<open>Showing the results\<close>

text \<open>
  The branch that the \<^verbatim>\<open>if\<close>/\<^verbatim>\<open>elif\<close> chain of \<^verbatim>\<open>main\<close> takes for one result, with the
  value the branch goes on to use.
\<close>

datatype category =
    Image pyval
  | Figure pyval
  | InteractiveChart
  | Tabular
  | RawValue

text \<open>\<^verbatim>\<open>hasattr(result, 'png') and result.png\<close>: the value of the attribute when it is true.\<close>

definition png_payload :: "result \<Rightarrow> pyval option" where
  "png_payload r =
     (case attrs r ''png'' of
        None \<Rightarrow> None
      | Some v \<Rightarrow> if truthy v then Some v else None)"

definition classify :: "result \<Rightarrow> category" where
  "classify r =
     (case png_payload r of
        Some v \<Rightarrow> Image v
      | None \<Rightarrow>
          (case attrs r ''figure'' of
             Some f \<Rightarrow> Figure f
           | None \<Rightarrow>
               if hasattr r ''show'' then InteractiveChart
               else if cls r = DataFrame \<or> cls r = Series then Tabular
               else RawValue))"

text \<open>The body of the loop over \<^verbatim>\<open>code_results\<close>; only the image branch can raise.\<close>

definition render_result :: "env \<Rightarrow> result \<Rightarrow> unit io" where
  "render_result libs r =
     (case classify r of
        Image v \<Rightarrow>
          (case open_image libs v of
             Inl msg \<Rightarrow> ([], Inl (Raised msg))
           | Inr img \<Rightarrow> ([StImage img ''Generated Visualization''], Inr ()))
      | Figure f \<Rightarrow> ([StPyplot f], Inr ())
      | InteractiveChart \<Rightarrow> ([StPlotlyChart r], Inr ())
      | Tabular \<Rightarrow> ([StDataframeResult r], Inr ())
      | RawValue \<Rightarrow> ([StWriteResult r], Inr ()))"

fun render_results :: "env \<Rightarrow> result list \<Rightarrow> unit io" where
  "render_results libs [] = ([], Inr ())"
| "render_results libs (r # rs) =
     (case render_result libs r of
        (shown, Inl exn) \<Rightarrow> (shown, Inl exn)
      | (shown, Inr u) \<Rightarrow>
          (case render_results libs rs of
             (later, outcome) \<Rightarrow> (shown @ later, outcome)))"

section \<open>The page\<close>

text \<open>
  What the widgets of one script run hand to \<^verbatim>\<open>main\<close>: the two key fields, the label
  picked in the model selector, the uploaded file if there is one, the checkbox, the
  question, and whether the Analyze button was pressed.
\<close>

record ui_input =
  together_key_input :: string
  e2b_key_input :: string
  selected_model :: string
  uploaded :: "uploaded_file option"
  show_full_dataset :: bool
  query :: string
  analyze :: bool

definition model_options :: "(string \<times> string) list" where
  "model_options =
     [(''Meta-Llama 3.1 405B'', ''meta-llama/Meta-Llama-3.1-405B-Instruct-Turbo''),
      (''DeepSeek V3'', ''deepseek-ai/DeepSeek-V3''),
      (''Qwen 2.5 7B'', ''Qwen/Qwen2.5-7B-Instruct-Turbo''),
      (''Meta-Llama 3.3 70B'', ''meta-llama/Llama-3.3-70B-Instruct-Turbo'')]"

text \<open>
  The title, the introduction and the sidebar texts. The two pictographs are written as
  their UTF-8 bytes.
\<close>

definition page_head :: "event list" where
  "page_head =
     [StTitle ([CHR 0xF0, CHR 0x9F, CHR 0x93, CHR 0x8A] @ '' AI Data Visualization Agent''),
      StWrite ''Upload your dataset and ask questions about it!'',
      StHeader ''API Keys and Model Configuration'',
      StInfo ([CHR 0xF0, CHR 0x9F, CHR 0x92, CHR 0xA1]
              @ '' Everyone gets a free $1 credit by Together AI''),
      StMarkdown ''[Get Together AI API Key](https://api.together.ai/signin)'',
      StMarkdown
        ''[Get E2B API Key](https://e2b.dev/docs/legacy/getting-started/api-key)'']"

text \<open>
  The body of the \<^verbatim>\<open>with Sandbox(...)\<close> block of \<^verbatim>\<open>main\<close>: stage the file, run the turn
  with the path that staging returned, show the reply, and show the results when
  \<^verbatim>\<open>code_results\<close> is true (neither \<open>None\<close> nor an empty list).
\<close>

definition main_in_sandbox ::
  "env \<Rightarrow> session_state \<Rightarrow> sandbox \<Rightarrow> uploaded_file \<Rightarrow> string \<Rightarrow> unit io" where
  "main_in_sandbox libs state code_interpreter file question =
     (case upload_dataset code_interpreter file of
        (staged, Inl exn) \<Rightarrow> (staged, Inl exn)
      | (staged, Inr dataset_path) \<Rightarrow>
          (case chat_with_llm libs state code_interpreter question dataset_path of
             (talked, Inl exn) \<Rightarrow> (staged @ talked, Inl exn)
           | (talked, Inr (code_results, llm_response)) \<Rightarrow>
               (let answer = [StSubheader ''AI Response:'', StWrite llm_response]
                in case code_results of
                     None \<Rightarrow> (staged @ talked @ answer, Inr ())
                   | Some rs \<Rightarrow>
                       if rs \<noteq> []
                       then (case render_results libs rs of
                               (shown, outcome) \<Rightarrow>
                                 (staged @ talked @ answer @ shown, outcome))
                       else (staged @ talked @ answer, Inr ()))))"

text \<open>
  The \<^verbatim>\<open>with\<close> statement itself: the constructor may raise; once the session exists it is
  left (and closed) however the body ends.
\<close>

definition main_analyze ::
  "env \<Rightarrow> session_state \<Rightarrow> uploaded_file \<Rightarrow> string \<Rightarrow> unit io" where
  "main_analyze libs state file question =
     (case new_sandbox libs (e2b_api_key state) of
        Inl msg \<Rightarrow> ([SandboxCreate (e2b_api_key state)], Inl (Raised msg))
      | Inr code_interpreter \<Rightarrow>
          (case main_in_sandbox libs state code_interpreter file question of
             (trace, outcome) \<Rightarrow>
               ([SandboxCreate (e2b_api_key state)] @ trace @ [SandboxExit], outcome)))"

text \<open>
  \<^verbatim>\<open>main\<close>: the session state takes the two keys and the identifier of the chosen model;
  with a file uploaded, the file is parsed and previewed; with the button pressed, the
  two keys are tested before anything else happens.
\<close>

definition main :: "env \<Rightarrow> ui_input \<Rightarrow> unit io" where
  "main libs ui =
     (case map_of model_options (selected_model ui) of
        None \<Rightarrow> (page_head, Inl KeyError)
      | Some model \<Rightarrow>
          (let state = \<lparr>together_api_key = together_key_input ui,
                        e2b_api_key = e2b_key_input ui,
                        model_name = model\<rparr>
           in case uploaded ui of
                None \<Rightarrow> (page_head, Inr ())
              | Some file \<Rightarrow>
                  (case read_csv libs file of
                     Inl msg \<Rightarrow> (page_head, Inl (Raised msg))
                   | Inr df \<Rightarrow>
                       (let preview =
                              StWrite ''Dataset:''
                              # (if show_full_dataset ui then [StDataframe df]
                                 else [StWrite ''Preview (first 5 rows):'',
                                       StDataframe (take 5 df)])
                        in if analyze ui
                           then (if together_api_key state = [] \<or> e2b_api_key state = []
                                 then (page_head @ preview
                                         @ [StError
                                              ''Please enter both API keys in the sidebar.''],
                                       Inr ())
                                 else (case main_analyze libs state file (query ui) of
                                         (trace, outcome) \<Rightarrow>
                                           (page_head @ preview @ trace, outcome)))
                           else (page_head @ preview, Inr ())))))"

text \<open>The calls that reach the sandbox service or the completion service.\<close>

fun external_call :: "event \<Rightarrow> bool" where
  "external_call (SandboxCreate k) = True"
| "external_call SandboxExit = True"
| "external_call (FilesWrite p f) = True"
| "external_call (RunCode c) = True"
| "external_call (CompletionsCreate k m ms) = True"
| "external_call e = False"

text \<open>The lines printed to the host's streams are the diagnostic channel.\<close>

fun diagnostic :: "event \<Rightarrow> bool" where
  "diagnostic (Print s t) = True"
| "diagnostic e = False"

text \<open>
  Two readings of a trace: the paths handed to \<^verbatim>\<open>files.write\<close>, and the message lists
  handed to the completion service, each in the order of the calls.
\<close>

fun written_paths :: "event list \<Rightarrow> string list" where
  "written_paths [] = []"
| "written_paths (FilesWrite path file # evs) = path # written_paths evs"
| "written_paths (ev # evs) = written_paths evs"

fun sent_messages :: "event list \<Rightarrow> message list list" where
  "sent_messages [] = []"
| "sent_messages (CompletionsCreate key model messages # evs) = messages # sent_messages evs"
| "sent_messages (ev # evs) = sent_messages evs"

section \<open>Stand-ins for the collaborators\<close>

text \<open>
  Fixed collaborators for the worked examples: a sandbox whose every run returns the same
  report and whose writes succeed, libraries whose completion call answers with one
  choice holding a given reply, and a session state.
\<close>

definition stub_sandbox :: "run_report \<Rightarrow> sandbox" where
  "stub_sandbox rep = \<lparr>run_code = (\<lambda>code. Inr rep), files_write = (\<lambda>path file. None)\<rparr>"

definition stub_libs :: "string \<Rightarrow> sandbox \<Rightarrow> env" where
  "stub_libs reply sbx =
     \<lparr>read_csv = (\<lambda>file. Inr [[''a'', ''b''], [''1'', ''2'']]),
      new_sandbox = (\<lambda>key. Inr sbx),
      completions_create = (\<lambda>key model messages. Inr \<lparr>choices = [\<lparr>content = Some reply\<rparr>]\<rparr>),
      open_image = (\<lambda>v. Inl ''cannot identify image file'')\<rparr>"

definition stub_state :: session_state where
  "stub_state = \<lparr>together_api_key = ''tk'', e2b_api_key = ''ek'', model_name = ''deepseek-ai/DeepSeek-V3''\<rparr>"

text \<open>A page with a file uploaded, a question typed and the button pressed.\<close>

definition stub_page :: "string \<Rightarrow> string \<Rightarrow> ui_input" where
  "stub_page together_key e2b_key =
     \<lparr>together_key_input = together_key,
      e2b_key_input = e2b_key,
      selected_model = ''DeepSeek V3'',
      uploaded = Some \<lparr>name = ''data.csv'', bytes = ''a,b''\<rparr>,
      show_full_dataset = False,
      query = ''mean?'',
      analyze = True\<rparr>"

section \<open>What the pattern finds\<close>

lemma fence_open_not_Nil: "fence_open \<noteq> []"
  by (simp add: fence_open_def)

lemma fence_close_not_Nil: "fence_close \<noteq> []"
  by (simp add: fence_close_def)

text \<open>
  An occurrence of a literal \<open>t\<close> that starts inside a non-empty \<open>xs\<close> ends before the last
  character of a copy of \<open>t\<close> that follows \<open>xs\<close>: whether \<open>t\<close> is a prefix there depends
  only on \<open>xs\<close> and the first \<open>length t - 1\<close> characters after it.
\<close>

lemma prefix_into_overlap:
  assumes "xs \<noteq> []" and "prefix t (xs @ t @ zs)"
  shows "prefix t (xs @ butlast t)"
proof (cases "t = []")
  case True
  then show ?thesis by simp
next
  case False
  then have split: "xs @ t @ zs = (xs @ butlast t) @ (last t # zs)"
    by simp
  have "length t \<le> length (xs @ butlast t)"
    using assms(1) False by (cases xs) simp_all
  moreover have "prefix (xs @ butlast t) (xs @ t @ zs)"
    unfolding split by simp
  ultimately show ?thesis
    using assms(2) by (blast intro: prefix_length_prefix)
qed

lemma prefix_out_of_overlap:
  assumes "prefix t (xs @ butlast t)"
  shows "prefix t (xs @ t @ zs)"
proof (cases "t = []")
  case True
  then show ?thesis by simp
next
  case False
  then have "xs @ t @ zs = (xs @ butlast t) @ (last t # zs)"
    by simp
  with assms show ?thesis
    by (metis prefix_prefix)
qed

lemma not_sublist_butlast: "t \<noteq> [] \<Longrightarrow> \<not> sublist t (butlast t)"
proof
  assume "t \<noteq> []" and "sublist t (butlast t)"
  then have "length t \<le> length (butlast t)"
    by (simp only: sublist_length_le)
  moreover from \<open>t \<noteq> []\<close> have "length (butlast t) < length t"
    by simp
  ultimately show False
    by linarith
qed

text \<open>
  The lazy group stops at the first place where the literal fits: it captures \<open>body\<close>
  when the literal follows \<open>body\<close> and fits nowhere earlier, it fails only when the
  literal occurs nowhere, and whatever it captures is followed by the literal and holds
  no earlier fit.
\<close>

lemma lazy_group_first:
  "\<not> sublist lit (body @ butlast lit) \<Longrightarrow> lazy_group lit (body @ lit @ post) = Some body"
proof (induction body)
  case Nil
  have "prefix lit (lit @ post)" by simp
  then show ?case by (cases "lit @ post") simp_all
next
  case (Cons b bs)
  from Cons.prems have no_prefix: "\<not> prefix lit ((b # bs) @ butlast lit)"
    and rest: "\<not> sublist lit (bs @ butlast lit)"
    by (simp_all add: sublist_Cons_right)
  from no_prefix have "\<not> prefix lit ((b # bs) @ lit @ post)"
    using prefix_into_overlap [of "b # bs" lit post] by blast
  with Cons.IH [OF rest] show ?case by simp
qed

lemma lazy_group_complete:
  "sublist lit s \<Longrightarrow> lazy_group lit s \<noteq> None"
proof (induction s)
  case Nil
  then show ?case by simp
next
  case (Cons c cs)
  then show ?case by (auto simp: sublist_Cons_right)
qed

lemma lazy_group_sound:
  "lit \<noteq> [] \<Longrightarrow> lazy_group lit s = Some g \<Longrightarrow>
     (\<exists>post. s = g @ lit @ post) \<and> \<not> sublist lit (g @ butlast lit)"
proof (induction s arbitrary: g)
  case Nil
  then show ?case by (simp split: if_splits)
next
  case (Cons c cs)
  show ?case
  proof (cases "prefix lit (c # cs)")
    case True
    with Cons.prems have "g = []" by simp
    with True Cons.prems(1) show ?thesis
      by (auto simp: prefix_def not_sublist_butlast)
  next
    case False
    with Cons.prems obtain g' where g': "lazy_group lit cs = Some g'" and g: "g = c # g'"
      by auto
    from Cons.IH [OF Cons.prems(1) g'] obtain post
      where cs: "cs = g' @ lit @ post" and first: "\<not> sublist lit (g' @ butlast lit)"
      by blast
    have "\<not> prefix lit ((c # g') @ butlast lit)"
      using False prefix_out_of_overlap [of lit "c # g'" post] cs by auto
    with first cs g show ?thesis
      by (simp add: sublist_Cons_right)
  qed
qed

text \<open>
  The search returns the interior between the leftmost opening fence and the first
  closing fence after it; it succeeds exactly on the texts that hold an opening fence with
  a closing fence somewhere behind it.
\<close>

lemma pattern_search_unfold:
  "pattern_search s =
     (case match_at s of
        Some g \<Rightarrow> Some g
      | None \<Rightarrow> (case s of [] \<Rightarrow> None | c # cs \<Rightarrow> pattern_search cs))"
  by (cases s) (simp_all split: option.splits)

lemma match_at_fence: "match_at (fence_open @ rest) = lazy_group fence_close rest"
  by (simp add: match_at_def)

lemma pattern_search_first:
  assumes "\<not> sublist fence_close (body @ butlast fence_close)"
  shows "\<not> sublist fence_open (pre @ butlast fence_open) \<Longrightarrow>
     pattern_search (pre @ fence_open @ body @ fence_close @ post) = Some body"
proof (induction pre)
  case Nil
  show ?case
    using lazy_group_first [OF assms, of post]
    by (simp add: pattern_search_unfold [of "fence_open @ _"] match_at_fence)
next
  case (Cons p ps)
  from Cons.prems have no_prefix: "\<not> prefix fence_open ((p # ps) @ butlast fence_open)"
    and rest: "\<not> sublist fence_open (ps @ butlast fence_open)"
    by (simp_all add: sublist_Cons_right)
  from no_prefix
  have "\<not> prefix fence_open ((p # ps) @ fence_open @ body @ fence_close @ post)"
    using prefix_into_overlap [of "p # ps" fence_open] by blast
  then have "match_at (p # ps @ fence_open @ body @ fence_close @ post) = None"
    by (simp add: match_at_def)
  with Cons.IH [OF rest] show ?case by simp
qed

lemma pattern_search_complete:
  "pattern_search (pre @ fence_open @ body @ fence_close @ post) \<noteq> None"
proof (induction pre)
  case Nil
  have "lazy_group fence_close (body @ fence_close @ post) \<noteq> None"
    by (rule lazy_group_complete) simp
  then show ?case
    by (auto simp: pattern_search_unfold [of "fence_open @ _"] match_at_fence)
next
  case (Cons p ps)
  then show ?case by (auto split: option.splits)
qed

lemma pattern_search_sound:
  "pattern_search s = Some g \<Longrightarrow>
     \<exists>pre post. s = pre @ fence_open @ g @ fence_close @ post
       \<and> \<not> sublist fence_open (pre @ butlast fence_open)
       \<and> \<not> sublist fence_close (g @ butlast fence_close)"
proof (induction s)
  case Nil
  then show ?case by (simp add: match_at_def fence_open_not_Nil)
next
  case (Cons c cs)
  show ?case
  proof (cases "match_at (c # cs)")
    case (Some g')
    with Cons.prems have g': "g' = g" by simp
    from Some have pre: "prefix fence_open (c # cs)"
      and grp: "lazy_group fence_close (drop (length fence_open) (c # cs)) = Some g"
      unfolding g' by (simp_all add: match_at_def split: if_splits)
    from pre obtain rest where rest: "c # cs = fence_open @ rest"
      by (auto simp: prefix_def)
    with grp have "lazy_group fence_close rest = Some g" by simp
    from lazy_group_sound [OF fence_close_not_Nil this] rest
    have "\<exists>post. c # cs = [] @ fence_open @ g @ fence_close @ post"
      and "\<not> sublist fence_close (g @ butlast fence_close)"
      by auto
    moreover have "\<not> sublist fence_open ([] @ butlast fence_open)"
      by (simp add: not_sublist_butlast fence_open_not_Nil)
    ultimately show ?thesis by blast
  next
    case None
    with Cons.prems have "pattern_search cs = Some g" by simp
    from Cons.IH [OF this] obtain pre post
      where cs: "cs = pre @ fence_open @ g @ fence_close @ post"
        and pre: "\<not> sublist fence_open (pre @ butlast fence_open)"
        and grp: "\<not> sublist fence_close (g @ butlast fence_close)"
      by blast
    have "\<not> prefix fence_open ((c # pre) @ butlast fence_open)"
    proof
      assume "prefix fence_open ((c # pre) @ butlast fence_open)"
      then have "prefix fence_open ((c # pre) @ fence_open @ g @ fence_close @ post)"
        by (rule prefix_out_of_overlap)
      then obtain rest where rest: "c # cs = fence_open @ rest"
        unfolding cs by (auto simp: prefix_def)
      have "sublist fence_close rest"
      proof -
        have "length fence_open \<le> length (c # pre @ fence_open)" by simp
        then have "rest = drop (length fence_open) (c # pre @ fence_open) @ g @ fence_close @ post"
          using rest cs
          by (metis append.assoc append_Cons append_eq_conv_conj drop_append diff_is_0_eq drop0)
        then show ?thesis
          by (metis append.assoc sublist_appendI)
      qed
      then have "lazy_group fence_close rest \<noteq> None"
        by (rule lazy_group_complete)
      with None rest show False
        by (simp add: match_at_fence)
    qed
    with pre have "\<not> sublist fence_open ((c # pre) @ butlast fence_open)"
      by (simp add: sublist_Cons_right)
    with cs grp show ?thesis
      by (metis append_Cons)
  qed
qed

lemma no_block_search:
  assumes "\<not> (\<exists>pre body post. reply = pre @ fence_open @ body @ fence_close @ post)"
  shows "pattern_search reply = None"
proof (cases "pattern_search reply")
  case None
  then show ?thesis .
next
  case (Some g)
  from pattern_search_sound [OF this] assms show ?thesis by blast
qed

lemma no_fence_no_block:
  "\<not> sublist fence_open reply \<Longrightarrow>
     \<not> (\<exists>pre body post. reply = pre @ fence_open @ body @ fence_close @ post)"
  by (metis sublist_appendI)

text \<open>Every text that holds a block holds a first one, in the sense used below.\<close>

lemma first_block_exists:
  assumes "reply = pre @ fence_open @ body @ fence_close @ post"
  shows "\<exists>p b q. reply = p @ fence_open @ b @ fence_close @ q
     \<and> \<not> sublist fence_open (p @ butlast fence_open)
     \<and> \<not> sublist fence_close (b @ butlast fence_close)"
proof -
  from pattern_search_complete [of pre body post] assms
  obtain g where "pattern_search reply = Some g"
    by auto
  from pattern_search_sound [OF this] show ?thesis
    by blast
qed

section \<open>The turn, once the reply is known\<close>

text \<open>
  When the completion service answers and the first choice has a text, \<open>chat_with_llm\<close>
  is decided by the extraction from that text and, if code was found, by the run.
\<close>

lemma chat_with_llm_reply:
  assumes "completions_create libs (together_api_key state) (model_name state)
             [[(''role'', ''system''), (''content'', system_prompt dataset_path)],
              [(''role'', ''user''), (''content'', user_message)]] = Inr resp"
    and "choices resp = m # ms"
    and "content m = Some reply"
  shows "chat_with_llm libs state sbx user_message dataset_path =
     (if match_code_blocks reply \<noteq> []
      then ([StSpinner ''Getting response from Together AI LLM model...'',
             CompletionsCreate (together_api_key state) (model_name state)
               [[(''role'', ''system''), (''content'', system_prompt dataset_path)],
                [(''role'', ''user''), (''content'', user_message)]]]
              @ fst (code_interpret sbx (match_code_blocks reply)),
            map_sum id (\<lambda>code_results. (code_results, reply))
              (snd (code_interpret sbx (match_code_blocks reply))))
      else ([StSpinner ''Getting response from Together AI LLM model...'',
             CompletionsCreate (together_api_key state) (model_name state)
               [[(''role'', ''system''), (''content'', system_prompt dataset_path)],
                [(''role'', ''user''), (''content'', user_message)]],
             StWarning ''No Python code block detected in LLM response.''],
            Inr (None, reply)))"
  using assms by (simp add: chat_with_llm_def Let_def split: prod.splits sum.splits)

section \<open>Extraction\<close>

text \<open>
  Claim C1. A reply that holds a python-tagged block is a text
  \<open>pre @ fence_open @ body @ fence_close @ post\<close>: the opening fence with its tag and line
  end, the interior, and the line end with the closing fence. The block is the first one
  when no opening fence starts before it (none occurs in \<open>pre\<close> followed by all but the
  last character of the fence), and its closing fence is the one that matches when no
  closing fence starts earlier in the interior. For every such reply
  \<open>match_code_blocks\<close> returns the interior \<open>body\<close>, unchanged, whatever follows the
  block, further blocks included.
\<close>

theorem match_code_blocks_first_block:
  assumes "\<not> sublist fence_open (pre @ butlast fence_open)"
    and "\<not> sublist fence_close (body @ butlast fence_close)"
  shows "match_code_blocks (pre @ fence_open @ body @ fence_close @ post) = body"
  using assms by (simp add: match_code_blocks_def pattern_search_first)

theorem match_code_blocks_first_block_witness:
  "\<not> sublist fence_open ((''Sure.'' @ [CHR 0x0A]) @ butlast fence_open)
   \<and> \<not> sublist fence_close (''print(1+1)'' @ butlast fence_close)
   \<and> match_code_blocks
        ((''Sure.'' @ [CHR 0x0A]) @ fence_open @ ''print(1+1)'' @ fence_close
           @ ([CHR 0x0A] @ ''Or:'' @ [CHR 0x0A] @ fence_open @ ''print(2)'' @ fence_close))
       = ''print(1+1)''"
proof -
  have a: "\<not> sublist fence_open ((''Sure.'' @ [CHR 0x0A]) @ butlast fence_open)"
    by code_simp
  have b: "\<not> sublist fence_close (''print(1+1)'' @ butlast fence_close)"
    by code_simp
  from match_code_blocks_first_block [OF a b] a b show ?thesis
    by blast
qed

text \<open>
  Claim C7. A reply holds no python-tagged block when it cannot be split as
  \<open>pre @ fence_open @ body @ fence_close @ post\<close>; a reply whose only fences carry another
  tag, or none, is of this kind. For every such reply \<open>match_code_blocks\<close> returns the
  empty string, and \<open>chat_with_llm\<close>, given this reply by the completion service, does not
  raise: it gives the warning and returns the reply with \<open>None\<close> for the results.
\<close>

theorem no_python_block_gives_empty:
  assumes "\<not> (\<exists>pre body post. reply = pre @ fence_open @ body @ fence_close @ post)"
    and "completions_create libs (together_api_key state) (model_name state)
           [[(''role'', ''system''), (''content'', system_prompt dataset_path)],
            [(''role'', ''user''), (''content'', user_message)]] = Inr resp"
    and "choices resp = m # ms"
    and "content m = Some reply"
  shows "match_code_blocks reply = []
     \<and> chat_with_llm libs state sbx user_message dataset_path =
         ([StSpinner ''Getting response from Together AI LLM model...'',
           CompletionsCreate (together_api_key state) (model_name state)
             [[(''role'', ''system''), (''content'', system_prompt dataset_path)],
              [(''role'', ''user''), (''content'', user_message)]],
           StWarning ''No Python code block detected in LLM response.''],
          Inr (None, reply))"
proof -
  from assms(1) have empty: "match_code_blocks reply = []"
    by (simp add: match_code_blocks_def no_block_search)
  with chat_with_llm_reply [OF assms(2-4), of sbx] show ?thesis
    by simp
qed

theorem no_python_block_gives_empty_witness:
  "match_code_blocks (''Use:'' @ [CHR 0x0A] @ ''```js'' @ [CHR 0x0A] @ ''f()'' @ fence_close) = []
   \<and> match_code_blocks (''```'' @ [CHR 0x0A] @ ''f()'' @ fence_close) = []
   \<and> snd (chat_with_llm
         (stub_libs (''```'' @ [CHR 0x0A] @ ''f()'' @ fence_close)
            (stub_sandbox \<lparr>written_stdout = [], written_stderr = [],
                            returned = \<lparr>results = [], error = None\<rparr>\<rparr>))
         stub_state
         (stub_sandbox \<lparr>written_stdout = [], written_stderr = [],
                         returned = \<lparr>results = [], error = None\<rparr>\<rparr>)
         ''mean?'' ''./data.csv'')
       = Inr (None, ''```'' @ [CHR 0x0A] @ ''f()'' @ fence_close)"
proof -
  let ?js = "''Use:'' @ [CHR 0x0A] @ ''```js'' @ [CHR 0x0A] @ ''f()'' @ fence_close"
  let ?plain = "''```'' @ [CHR 0x0A] @ ''f()'' @ fence_close"
  let ?sbx = "stub_sandbox \<lparr>written_stdout = [], written_stderr = [],
                            returned = \<lparr>results = [], error = None\<rparr>\<rparr>"
  have "\<not> sublist fence_open ?js" by code_simp
  then have js: "\<not> (\<exists>pre body post. ?js = pre @ fence_open @ body @ fence_close @ post)"
    by (rule no_fence_no_block)
  have "\<not> sublist fence_open ?plain" by code_simp
  then have plain: "\<not> (\<exists>pre body post. ?plain = pre @ fence_open @ body @ fence_close @ post)"
    by (rule no_fence_no_block)
  have call_js: "completions_create (stub_libs ?js ?sbx) (together_api_key stub_state)
      (model_name stub_state)
      [[(''role'', ''system''), (''content'', system_prompt ''./data.csv'')],
       [(''role'', ''user''), (''content'', ''mean?'')]] = Inr \<lparr>choices = [\<lparr>content = Some ?js\<rparr>]\<rparr>"
    by (simp add: stub_libs_def)
  have call_plain: "completions_create (stub_libs ?plain ?sbx) (together_api_key stub_state)
      (model_name stub_state)
      [[(''role'', ''system''), (''content'', system_prompt ''./data.csv'')],
       [(''role'', ''user''), (''content'', ''mean?'')]] = Inr \<lparr>choices = [\<lparr>content = Some ?plain\<rparr>]\<rparr>"
    by (simp add: stub_libs_def)
  from no_python_block_gives_empty [OF js call_js, of "\<lparr>content = Some ?js\<rparr>" "[]" ?sbx]
    no_python_block_gives_empty [OF plain call_plain, of "\<lparr>content = Some ?plain\<rparr>" "[]" ?sbx]
  show ?thesis by simp
qed

section \<open>Execution\<close>

text \<open>
  Claim C2. When \<^verbatim>\<open>run_code\<close> returns an execution whose \<open>error\<close> is set,
  \<open>code_interpret\<close> returns \<open>None\<close> whatever the execution's \<open>results\<close> hold and whatever
  was written to the two streams during the run. The written text only reaches the
  printed lines: apart from the spinner and the call itself every event is a printed
  line, the text of each non-empty stream is among them, and so is the error line.
\<close>

theorem code_interpret_error_gives_None:
  assumes "run_code sbx code = Inr rep"
    and "error (returned rep) = Some e"
  shows "snd (code_interpret sbx code) = Inr None
     \<and> filter (\<lambda>ev. \<not> diagnostic ev) (fst (code_interpret sbx code))
         = [StSpinner ''Executing code in E2B sandbox...'', RunCode code]
     \<and> (written_stdout rep \<noteq> [] \<longrightarrow>
          Print Stdout (written_stdout rep) \<in> set (fst (code_interpret sbx code)))
     \<and> (written_stderr rep \<noteq> [] \<longrightarrow>
          Print Stderr (written_stderr rep) \<in> set (fst (code_interpret sbx code)))
     \<and> Print Stderr (''[Code Interpreter ERROR] '' @ error_str e)
          \<in> set (fst (code_interpret sbx code))"
  using assms by (simp add: code_interpret_def Let_def)

theorem code_interpret_error_gives_None_witness:
  "snd (code_interpret
          (stub_sandbox
             \<lparr>written_stdout = ''partial'', written_stderr = ''Traceback'',
              returned = \<lparr>results = [\<lparr>attrs = [''text'' \<mapsto> PyStr ''2''], cls = OtherClass\<rparr>],
                          error = Some (ExecutionError ''ZeroDivisionError'')\<rparr>\<rparr>)
          ''print(2); 1/0'') = Inr None
   \<and> Print Stdout ''partial''
        \<in> set (fst (code_interpret
          (stub_sandbox
             \<lparr>written_stdout = ''partial'', written_stderr = ''Traceback'',
              returned = \<lparr>results = [\<lparr>attrs = [''text'' \<mapsto> PyStr ''2''], cls = OtherClass\<rparr>],
                          error = Some (ExecutionError ''ZeroDivisionError'')\<rparr>\<rparr>)
          ''print(2); 1/0''))"
  using code_interpret_error_gives_None
    [of "stub_sandbox
             \<lparr>written_stdout = ''partial'', written_stderr = ''Traceback'',
              returned = \<lparr>results = [\<lparr>attrs = [''text'' \<mapsto> PyStr ''2''], cls = OtherClass\<rparr>],
                          error = Some (ExecutionError ''ZeroDivisionError'')\<rparr>\<rparr>"
        "''print(2); 1/0''"
        "\<lparr>written_stdout = ''partial'', written_stderr = ''Traceback'',
              returned = \<lparr>results = [\<lparr>attrs = [''text'' \<mapsto> PyStr ''2''], cls = OtherClass\<rparr>],
                          error = Some (ExecutionError ''ZeroDivisionError'')\<rparr>\<rparr>"
        "ExecutionError ''ZeroDivisionError''"]
  by (simp add: stub_sandbox_def)


section \<open>The turn\<close>

text \<open>
  Claim C4. When the reply holds code and its run in the sandbox ends with the
  execution's \<open>error\<close> set, \<open>chat_with_llm\<close> returns normally (the \<open>Inr\<close> branch), with the
  whole reply and \<open>None\<close> for the results. The failure shows only in the printed lines:
  the error line is printed, and apart from printed lines the trace holds the two
  spinners and the two calls, neither a warning nor an error notice.
\<close>

theorem failed_execution_keeps_reply:
  assumes "completions_create libs (together_api_key state) (model_name state)
             [[(''role'', ''system''), (''content'', system_prompt dataset_path)],
              [(''role'', ''user''), (''content'', user_message)]] = Inr resp"
    and "choices resp = m # ms"
    and "content m = Some reply"
    and "match_code_blocks reply \<noteq> []"
    and "run_code sbx (match_code_blocks reply) = Inr rep"
    and "error (returned rep) = Some e"
  shows "snd (chat_with_llm libs state sbx user_message dataset_path) = Inr (None, reply)
     \<and> filter (\<lambda>ev. \<not> diagnostic ev)
           (fst (chat_with_llm libs state sbx user_message dataset_path))
         = [StSpinner ''Getting response from Together AI LLM model...'',
            CompletionsCreate (together_api_key state) (model_name state)
              [[(''role'', ''system''), (''content'', system_prompt dataset_path)],
               [(''role'', ''user''), (''content'', user_message)]],
            StSpinner ''Executing code in E2B sandbox...'',
            RunCode (match_code_blocks reply)]
     \<and> Print Stderr (''[Code Interpreter ERROR] '' @ error_str e)
          \<in> set (fst (chat_with_llm libs state sbx user_message dataset_path))"
proof -
  have run: "code_interpret sbx (match_code_blocks reply)
      = (fst (code_interpret sbx (match_code_blocks reply)), Inr None)"
    using assms(5,6) by (simp add: code_interpret_def Let_def)
  have quiet: "filter (\<lambda>ev. \<not> diagnostic ev) (fst (code_interpret sbx (match_code_blocks reply)))
      = [StSpinner ''Executing code in E2B sandbox...'', RunCode (match_code_blocks reply)]"
    using assms(5,6) by (simp add: code_interpret_def Let_def)
  have line: "Print Stderr (''[Code Interpreter ERROR] '' @ error_str e)
      \<in> set (fst (code_interpret sbx (match_code_blocks reply)))"
    using assms(5,6) by (simp add: code_interpret_def Let_def)
  have whole: "chat_with_llm libs state sbx user_message dataset_path =
      ([StSpinner ''Getting response from Together AI LLM model...'',
        CompletionsCreate (together_api_key state) (model_name state)
          [[(''role'', ''system''), (''content'', system_prompt dataset_path)],
           [(''role'', ''user''), (''content'', user_message)]]]
         @ fst (code_interpret sbx (match_code_blocks reply)),
       Inr (None, reply))"
  proof -
    have "snd (code_interpret sbx (match_code_blocks reply)) = Inr None"
      using run by (metis snd_conv)
    with chat_with_llm_reply [OF assms(1-3), of sbx] assms(4) show ?thesis
      by simp
  qed
  show ?thesis
    unfolding whole using quiet line by simp
qed


theorem failed_execution_keeps_reply_witness:
  "match_code_blocks (''Try'' @ fence_open @ ''1/0'' @ fence_close) \<noteq> []
   \<and> snd (chat_with_llm
         (stub_libs (''Try'' @ fence_open @ ''1/0'' @ fence_close)
            (stub_sandbox \<lparr>written_stdout = ''out'', written_stderr = [],
                            returned = \<lparr>results = [], error = Some (ExecutionError ''ZeroDivisionError'')\<rparr>\<rparr>))
         stub_state
         (stub_sandbox \<lparr>written_stdout = ''out'', written_stderr = [],
                         returned = \<lparr>results = [], error = Some (ExecutionError ''ZeroDivisionError'')\<rparr>\<rparr>)
         ''mean?'' ''./data.csv'')
       = Inr (None, ''Try'' @ fence_open @ ''1/0'' @ fence_close)"
proof -
  let ?reply = "''Try'' @ fence_open @ ''1/0'' @ fence_close"
  let ?rep = "\<lparr>written_stdout = ''out'', written_stderr = [],
                returned = \<lparr>results = [], error = Some (ExecutionError ''ZeroDivisionError'')\<rparr>\<rparr>"
  let ?sbx = "stub_sandbox ?rep"
  have code: "match_code_blocks ?reply \<noteq> []" by code_simp
  have call: "completions_create (stub_libs ?reply ?sbx) (together_api_key stub_state)
      (model_name stub_state)
      [[(''role'', ''system''), (''content'', system_prompt ''./data.csv'')],
       [(''role'', ''user''), (''content'', ''mean?'')]] = Inr \<lparr>choices = [\<lparr>content = Some ?reply\<rparr>]\<rparr>"
    by (simp add: stub_libs_def)
  have run: "run_code ?sbx (match_code_blocks ?reply) = Inr ?rep"
    by (simp add: stub_sandbox_def)
  from failed_execution_keeps_reply [OF call _ _ code run, of "\<lparr>content = Some ?reply\<rparr>" "[]"
      "ExecutionError ''ZeroDivisionError''"] code
  show ?thesis by simp
qed

text \<open>
  Claim C5. When the extraction from the reply is the empty string, \<open>chat_with_llm\<close>
  returns the reply with \<open>None\<close> for the results, gives the warning, and makes no
  \<^verbatim>\<open>run_code\<close> call.
\<close>

theorem no_code_no_execution:
  assumes "completions_create libs (together_api_key state) (model_name state)
             [[(''role'', ''system''), (''content'', system_prompt dataset_path)],
              [(''role'', ''user''), (''content'', user_message)]] = Inr resp"
    and "choices resp = m # ms"
    and "content m = Some reply"
    and "match_code_blocks reply = []"
  shows "snd (chat_with_llm libs state sbx user_message dataset_path) = Inr (None, reply)
     \<and> StWarning ''No Python code block detected in LLM response.''
          \<in> set (fst (chat_with_llm libs state sbx user_message dataset_path))
     \<and> (\<forall>code. RunCode code \<notin> set (fst (chat_with_llm libs state sbx user_message dataset_path)))"
  using chat_with_llm_reply [OF assms(1-3), of sbx] assms(4) by simp

theorem no_code_no_execution_witness:
  "match_code_blocks ''The mean is 4.2.'' = []
   \<and> snd (chat_with_llm
         (stub_libs ''The mean is 4.2.''
            (stub_sandbox \<lparr>written_stdout = [], written_stderr = [],
                            returned = \<lparr>results = [], error = None\<rparr>\<rparr>))
         stub_state
         (stub_sandbox \<lparr>written_stdout = [], written_stderr = [],
                         returned = \<lparr>results = [], error = None\<rparr>\<rparr>)
         ''mean?'' ''./data.csv'')
       = Inr (None, ''The mean is 4.2.'')"
proof -
  let ?reply = "''The mean is 4.2.''"
  let ?sbx = "stub_sandbox \<lparr>written_stdout = [], written_stderr = [],
                            returned = \<lparr>results = [], error = None\<rparr>\<rparr>"
  have none: "match_code_blocks ?reply = []" by code_simp
  have call: "completions_create (stub_libs ?reply ?sbx) (together_api_key stub_state)
      (model_name stub_state)
      [[(''role'', ''system''), (''content'', system_prompt ''./data.csv'')],
       [(''role'', ''user''), (''content'', ''mean?'')]] = Inr \<lparr>choices = [\<lparr>content = Some ?reply\<rparr>]\<rparr>"
    by (simp add: stub_libs_def)
  from no_code_no_execution [OF call _ _ none, of "\<lparr>content = Some ?reply\<rparr>" "[]" ?sbx] none
  show ?thesis by simp
qed

text \<open>
  Claim C6. When the reply holds code, the run returns without an error and the
  execution's \<open>results\<close> are empty, \<open>chat_with_llm\<close> returns the empty list for the
  results, which is not the \<open>None\<close> of a turn without code.
\<close>

theorem no_artifacts_is_empty_list:
  assumes "completions_create libs (together_api_key state) (model_name state)
             [[(''role'', ''system''), (''content'', system_prompt dataset_path)],
              [(''role'', ''user''), (''content'', user_message)]] = Inr resp"
    and "choices resp = m # ms"
    and "content m = Some reply"
    and "match_code_blocks reply \<noteq> []"
    and "run_code sbx (match_code_blocks reply) = Inr rep"
    and "error (returned rep) = None"
    and "results (returned rep) = []"
  shows "snd (chat_with_llm libs state sbx user_message dataset_path) = Inr (Some [], reply)
     \<and> (\<forall>text. snd (chat_with_llm libs state sbx user_message dataset_path)
           \<noteq> Inr (None, text))"
proof -
  have "snd (code_interpret sbx (match_code_blocks reply)) = Inr (Some [])"
    using assms(5-7) by (simp add: code_interpret_def Let_def)
  with chat_with_llm_reply [OF assms(1-3), of sbx] assms(4) show ?thesis
    by simp
qed

theorem no_artifacts_is_empty_list_witness:
  "match_code_blocks (fence_open @ ''print(1+1)'' @ fence_close) \<noteq> []
   \<and> snd (chat_with_llm
         (stub_libs (fence_open @ ''print(1+1)'' @ fence_close)
            (stub_sandbox \<lparr>written_stdout = ''2'', written_stderr = [],
                            returned = \<lparr>results = [], error = None\<rparr>\<rparr>))
         stub_state
         (stub_sandbox \<lparr>written_stdout = ''2'', written_stderr = [],
                         returned = \<lparr>results = [], error = None\<rparr>\<rparr>)
         ''mean?'' ''./data.csv'')
       = Inr (Some [], fence_open @ ''print(1+1)'' @ fence_close)"
proof -
  let ?reply = "fence_open @ ''print(1+1)'' @ fence_close"
  let ?rep = "\<lparr>written_stdout = ''2'', written_stderr = [],
                returned = \<lparr>results = [], error = None\<rparr>\<rparr>"
  let ?sbx = "stub_sandbox ?rep"
  have code: "match_code_blocks ?reply \<noteq> []" by code_simp
  have call: "completions_create (stub_libs ?reply ?sbx) (together_api_key stub_state)
      (model_name stub_state)
      [[(''role'', ''system''), (''content'', system_prompt ''./data.csv'')],
       [(''role'', ''user''), (''content'', ''mean?'')]] = Inr \<lparr>choices = [\<lparr>content = Some ?reply\<rparr>]\<rparr>"
    by (simp add: stub_libs_def)
  have run: "run_code ?sbx (match_code_blocks ?reply) = Inr ?rep"
    by (simp add: stub_sandbox_def)
  from no_artifacts_is_empty_list [OF call _ _ code run, of "\<lparr>content = Some ?reply\<rparr>" "[]"] code
  show ?thesis by simp
qed

section \<open>Classification\<close>

text \<open>
  Claim C3. The chain of \<^verbatim>\<open>main\<close> takes the first branch that applies, in the order
  png, figure, show, table, anything else: a result with a true \<^verbatim>\<open>png\<close> value is an image
  whatever else it has; without one, a result with a \<^verbatim>\<open>figure\<close> attribute is a figure;
  without either, one with a \<^verbatim>\<open>show\<close> attribute is an interactive chart; without any of
  the three, a data frame or series is tabular, and every other result is shown raw. In
  particular a result with a true \<^verbatim>\<open>png\<close> value and a \<^verbatim>\<open>show\<close> attribute is an image, not
  an interactive chart, and is never handed to \<^verbatim>\<open>st.plotly_chart\<close>.
\<close>

theorem classification_priority:
  "(png_payload r = Some v \<longrightarrow> classify r = Image v)
   \<and> (png_payload r = None \<and> attrs r ''figure'' = Some f \<longrightarrow> classify r = Figure f)
   \<and> (png_payload r = None \<and> attrs r ''figure'' = None \<and> attrs r ''show'' = Some s
        \<longrightarrow> classify r = InteractiveChart)
   \<and> (png_payload r = None \<and> attrs r ''figure'' = None \<and> attrs r ''show'' = None
        \<and> (cls r = DataFrame \<or> cls r = Series) \<longrightarrow> classify r = Tabular)
   \<and> (png_payload r = None \<and> attrs r ''figure'' = None \<and> attrs r ''show'' = None
        \<and> cls r = OtherClass \<longrightarrow> classify r = RawValue)
   \<and> (attrs r ''png'' = Some v \<and> truthy v \<and> attrs r ''show'' = Some s \<longrightarrow>
        classify r = Image v \<and> classify r \<noteq> InteractiveChart
        \<and> (\<forall>libs. StPlotlyChart r \<notin> set (fst (render_result libs r))))"
  by (auto simp: classify_def png_payload_def hasattr_def render_result_def
      split: option.splits sum.splits)


theorem classification_priority_witness:
  "classify \<lparr>attrs = [''png'' \<mapsto> PyStr ''iVBORw0KGgo='', ''show'' \<mapsto> PyObject 1],
             cls = OtherClass\<rparr> = Image (PyStr ''iVBORw0KGgo='')
   \<and> classify \<lparr>attrs = [''figure'' \<mapsto> PyObject 2, ''show'' \<mapsto> PyObject 1],
               cls = DataFrame\<rparr> = Figure (PyObject 2)
   \<and> classify \<lparr>attrs = [''show'' \<mapsto> PyObject 1], cls = Series\<rparr> = InteractiveChart
   \<and> classify \<lparr>attrs = Map.empty, cls = Series\<rparr> = Tabular
   \<and> classify \<lparr>attrs = [''text'' \<mapsto> PyStr ''2''], cls = OtherClass\<rparr> = RawValue"
proof -
  let ?a = "\<lparr>attrs = [''png'' \<mapsto> PyStr ''iVBORw0KGgo='', ''show'' \<mapsto> PyObject 1],
             cls = OtherClass\<rparr>"
  let ?b = "\<lparr>attrs = [''figure'' \<mapsto> PyObject 2, ''show'' \<mapsto> PyObject 1],
             cls = DataFrame\<rparr>"
  let ?c = "\<lparr>attrs = [''show'' \<mapsto> PyObject 1], cls = Series\<rparr>"
  let ?d = "\<lparr>attrs = Map.empty, cls = Series\<rparr>"
  let ?e = "\<lparr>attrs = [''text'' \<mapsto> PyStr ''2''], cls = OtherClass\<rparr>"
  have a: "attrs ?a ''png'' = Some (PyStr ''iVBORw0KGgo='') \<and> truthy (PyStr ''iVBORw0KGgo='')
      \<and> attrs ?a ''show'' = Some (PyObject 1)"
    by simp
  have b: "png_payload ?b = None \<and> attrs ?b ''figure'' = Some (PyObject 2)"
    by (simp add: png_payload_def)
  have c: "png_payload ?c = None \<and> attrs ?c ''figure'' = None
      \<and> attrs ?c ''show'' = Some (PyObject 1)"
    by (simp add: png_payload_def)
  have d: "png_payload ?d = None \<and> attrs ?d ''figure'' = None \<and> attrs ?d ''show'' = None
      \<and> (cls ?d = DataFrame \<or> cls ?d = Series)"
    by (simp add: png_payload_def)
  have e: "png_payload ?e = None \<and> attrs ?e ''figure'' = None \<and> attrs ?e ''show'' = None
      \<and> cls ?e = OtherClass"
    by (simp add: png_payload_def)
  from classification_priority [of ?a "PyStr ''iVBORw0KGgo=''" _ "PyObject 1"] a
  have "classify ?a = Image (PyStr ''iVBORw0KGgo='')" by blast
  moreover from classification_priority [of ?b _ "PyObject 2"] b
  have "classify ?b = Figure (PyObject 2)" by blast
  moreover from classification_priority [of ?c _ _ "PyObject 1"] c
  have "classify ?c = InteractiveChart" by blast
  moreover from classification_priority [of ?d] d
  have "classify ?d = Tabular" by blast
  moreover from classification_priority [of ?e] e
  have "classify ?e = RawValue" by blast
  ultimately show ?thesis by blast
qed

text \<open>
  Claim C10. For a result without a true \<^verbatim>\<open>png\<close> value, the \<^verbatim>\<open>figure\<close> and
  \<^verbatim>\<open>show\<close> tests look at the presence of the attribute only: with a \<^verbatim>\<open>figure\<close> attribute
  of any value \<open>v\<close>, \<open>None\<close> included, the result is a figure and nothing further down the
  chain; without one, a \<^verbatim>\<open>show\<close> attribute of any value makes it an interactive chart.
  Only the \<^verbatim>\<open>png\<close> test asks for a true value: a \<^verbatim>\<open>png\<close> attribute that is present but
  false never gives an image.
\<close>

theorem presence_probes_ignore_value:
  "(png_payload r = None \<and> attrs r ''figure'' = Some v \<longrightarrow>
      classify r = Figure v \<and> classify r \<noteq> InteractiveChart \<and> classify r \<noteq> Tabular
      \<and> classify r \<noteq> RawValue)
   \<and> (png_payload r = None \<and> attrs r ''figure'' = None \<and> attrs r ''show'' = Some v \<longrightarrow>
        classify r = InteractiveChart)
   \<and> (attrs r ''png'' = Some v \<and> \<not> truthy v \<longrightarrow>
        png_payload r = None \<and> (\<forall>w. classify r \<noteq> Image w))"
  by (auto simp: classify_def png_payload_def hasattr_def split: option.splits)

theorem presence_probes_ignore_value_witness:
  "\<not> truthy PyNone
   \<and> classify \<lparr>attrs = [''figure'' \<mapsto> PyNone, ''show'' \<mapsto> PyObject 1], cls = DataFrame\<rparr>
       = Figure PyNone
   \<and> classify \<lparr>attrs = [''png'' \<mapsto> PyStr [], ''show'' \<mapsto> PyNone], cls = DataFrame\<rparr>
       = InteractiveChart"
proof -
  let ?a = "\<lparr>attrs = [''figure'' \<mapsto> PyNone, ''show'' \<mapsto> PyObject 1], cls = DataFrame\<rparr>"
  let ?b = "\<lparr>attrs = [''png'' \<mapsto> PyStr [], ''show'' \<mapsto> PyNone], cls = DataFrame\<rparr>"
  have a: "png_payload ?a = None \<and> attrs ?a ''figure'' = Some PyNone"
    by (simp add: png_payload_def)
  have b: "png_payload ?b = None \<and> attrs ?b ''figure'' = None \<and> attrs ?b ''show'' = Some PyNone"
    by (simp add: png_payload_def)
  from presence_probes_ignore_value [of ?a PyNone] a
  have "classify ?a = Figure PyNone" by blast
  moreover from presence_probes_ignore_value [of ?b PyNone] b
  have "classify ?b = InteractiveChart" by blast
  ultimately show ?thesis by simp
qed

section \<open>The page as a whole\<close>

lemma written_paths_append: "written_paths (xs @ ys) = written_paths xs @ written_paths ys"
  by (induction xs rule: written_paths.induct) simp_all

lemma sent_messages_append: "sent_messages (xs @ ys) = sent_messages xs @ sent_messages ys"
  by (induction xs rule: sent_messages.induct) simp_all

lemma code_interpret_no_staging:
  "code_interpret sbx code = (trace, outcome) \<Longrightarrow>
     written_paths trace = [] \<and> sent_messages trace = []"
  by (auto simp: code_interpret_def Let_def written_paths_append sent_messages_append
      split: sum.splits option.splits)

lemma render_result_no_staging:
  "render_result libs r = (shown, outcome) \<Longrightarrow>
     written_paths shown = [] \<and> sent_messages shown = []"
  by (auto simp: render_result_def split: category.splits sum.splits)

lemma render_results_no_staging:
  "render_results libs rs = (shown, outcome) \<Longrightarrow>
     written_paths shown = [] \<and> sent_messages shown = []"
proof (induction rs arbitrary: shown outcome)
  case Nil
  then show ?case by simp
next
  case (Cons r rs)
  obtain first result where one: "render_result libs r = (first, result)"
    by (cases "render_result libs r")
  obtain later final where rest: "render_results libs rs = (later, final)"
    by (cases "render_results libs rs")
  note a = render_result_no_staging [OF one] and b = Cons.IH [OF rest]
  from Cons.prems one rest a b show ?case
    by (cases result) (auto simp: written_paths_append sent_messages_append)
qed

lemma chat_with_llm_one_prompt:
  "chat_with_llm libs state sbx user_message dataset_path = (talked, outcome) \<Longrightarrow>
   written_paths talked = []
   \<and> sent_messages talked
       = [[[(''role'', ''system''), (''content'', system_prompt dataset_path)],
           [(''role'', ''user''), (''content'', user_message)]]]"
  by (auto simp: chat_with_llm_def Let_def written_paths_append sent_messages_append
      dest: code_interpret_no_staging
      split: sum.splits list.splits option.splits prod.splits if_splits)

lemma main_in_sandbox_staging:
  assumes "files_write sbx (''./'' @ name file) file = None"
    and "main_in_sandbox libs state sbx file question = (trace, outcome)"
  shows "written_paths trace = [''./'' @ name file]
     \<and> sent_messages trace
         = [[[(''role'', ''system''), (''content'', system_prompt (''./'' @ name file))],
             [(''role'', ''user''), (''content'', question)]]]"
proof -
  have staged: "upload_dataset sbx file
      = ([FilesWrite (''./'' @ name file) file], Inr (''./'' @ name file))"
    using assms(1) by (simp add: upload_dataset_def Let_def)
  obtain talked result
    where chat: "chat_with_llm libs state sbx question (''./'' @ name file) = (talked, result)"
    by (cases "chat_with_llm libs state sbx question (''./'' @ name file)")
  note a = chat_with_llm_one_prompt [OF chat]
  from assms(2) staged chat a show ?thesis
    by (auto simp: main_in_sandbox_def Let_def written_paths_append sent_messages_append
        dest: render_results_no_staging
        split: sum.splits option.splits prod.splits if_splits)
qed


lemma main_analyze_staging:
  assumes "new_sandbox libs (e2b_api_key state) = Inr sbx"
    and "files_write sbx (''./'' @ name file) file = None"
    and "main_analyze libs state file question = (trace, outcome)"
  shows "written_paths trace = [''./'' @ name file]
     \<and> sent_messages trace
         = [[[(''role'', ''system''), (''content'', system_prompt (''./'' @ name file))],
             [(''role'', ''user''), (''content'', question)]]]"
proof -
  obtain inner result
    where body: "main_in_sandbox libs state sbx file question = (inner, result)"
    by (cases "main_in_sandbox libs state sbx file question")
  note a = main_in_sandbox_staging [OF assms(2) body]
  from assms(1,3) body a show ?thesis
    by (auto simp: main_analyze_def written_paths_append sent_messages_append)
qed

lemma page_head_no_staging:
  "written_paths page_head = [] \<and> sent_messages page_head = []"
  by (simp add: page_head_def)

lemma embedded_in_prompt:
  "sublist ([CHR 0x27] @ dataset_path @ [CHR 0x27]) (system_prompt dataset_path)"
proof -
  have "system_prompt dataset_path =
      (''You'' @ [CHR 0x27] @ ''re a Python data scientist and data visualization expert.''
       @ [CHR 0x0A] @ ''You are given a dataset at path '')
      @ ([CHR 0x27] @ dataset_path @ [CHR 0x27])
      @ ('' and also the user'' @ [CHR 0x27] @ ''s query.''
         @ [CHR 0x0A]
         @ ''You need to analyze the dataset and answer the user'' @ [CHR 0x27]
         @ ''s query with a response and you run Python code to solve them.''
         @ [CHR 0x0A]
         @ ''IMPORTANT: Always use the dataset path variable '' @ [CHR 0x27] @ dataset_path
         @ [CHR 0x27] @ '' in your code when reading the CSV file.'')"
    by (simp add: system_prompt_def)
  then show ?thesis
    by (simp only: sublist_appendI)
qed

text \<open>
  Claim C8. In a run of \<^verbatim>\<open>main\<close> that reaches the analysis (a model picked, a file
  uploaded and parsed, the button pressed, both keys given, the session created) and whose
  file write succeeds, the path returned by \<^verbatim>\<open>upload_dataset\<close> is
  \<^verbatim>\<open>./\<close> followed by the file's name; exactly one write is made, to that path; exactly
  one message list is sent to the completion service, and its system message is the
  prompt built from that same path, which holds the path between apostrophes.
\<close>

theorem staged_path_is_prompt_path:
  assumes "map_of model_options (selected_model ui) = Some model"
    and "uploaded ui = Some file"
    and "read_csv libs file = Inr df"
    and "analyze ui"
    and "together_key_input ui \<noteq> []"
    and "e2b_key_input ui \<noteq> []"
    and "new_sandbox libs (e2b_key_input ui) = Inr sbx"
    and "files_write sbx (''./'' @ name file) file = None"
  shows "snd (upload_dataset sbx file) = Inr (''./'' @ name file)
     \<and> written_paths (fst (main libs ui)) = [''./'' @ name file]
     \<and> sent_messages (fst (main libs ui))
         = [[[(''role'', ''system''), (''content'', system_prompt (''./'' @ name file))],
             [(''role'', ''user''), (''content'', query ui)]]]
     \<and> sublist ([CHR 0x27] @ (''./'' @ name file) @ [CHR 0x27])
          (system_prompt (''./'' @ name file))"
proof -
  let ?state = "\<lparr>together_api_key = together_key_input ui,
                  e2b_api_key = e2b_key_input ui, model_name = model\<rparr>"
  have staged: "snd (upload_dataset sbx file) = Inr (''./'' @ name file)"
    using assms(8) by (simp add: upload_dataset_def Let_def)
  obtain trace outcome
    where run: "main_analyze libs ?state file (query ui) = (trace, outcome)"
    by (cases "main_analyze libs ?state file (query ui)")
  have sbx: "new_sandbox libs (e2b_api_key ?state) = Inr sbx"
    using assms(7) by simp
  note a = main_analyze_staging [OF sbx assms(8) run]
  have "fst (main libs ui) =
      page_head
      @ (StWrite ''Dataset:''
         # (if show_full_dataset ui then [StDataframe df]
            else [StWrite ''Preview (first 5 rows):'', StDataframe (take 5 df)]))
      @ trace"
    using assms(1-6) run by (simp add: main_def Let_def)
  with a page_head_no_staging have
    "written_paths (fst (main libs ui)) = [''./'' @ name file]"
    and "sent_messages (fst (main libs ui))
         = [[[(''role'', ''system''), (''content'', system_prompt (''./'' @ name file))],
             [(''role'', ''user''), (''content'', query ui)]]]"
    by (simp_all add: written_paths_append sent_messages_append)
  with staged embedded_in_prompt [of "''./'' @ name file"] show ?thesis
    by blast
qed

theorem staged_path_is_prompt_path_witness:
  "written_paths
     (fst (main
        (stub_libs ''The mean is 4.2.''
           (stub_sandbox \<lparr>written_stdout = [], written_stderr = [],
                           returned = \<lparr>results = [], error = None\<rparr>\<rparr>))
        (stub_page ''tk'' ''ek''))) = [''./data.csv'']
   \<and> sent_messages
     (fst (main
        (stub_libs ''The mean is 4.2.''
           (stub_sandbox \<lparr>written_stdout = [], written_stderr = [],
                           returned = \<lparr>results = [], error = None\<rparr>\<rparr>))
        (stub_page ''tk'' ''ek'')))
     = [[[(''role'', ''system''), (''content'', system_prompt ''./data.csv'')],
         [(''role'', ''user''), (''content'', ''mean?'')]]]"
proof -
  let ?sbx = "stub_sandbox \<lparr>written_stdout = [], written_stderr = [],
                            returned = \<lparr>results = [], error = None\<rparr>\<rparr>"
  let ?libs = "stub_libs ''The mean is 4.2.'' ?sbx"
  let ?ui = "stub_page ''tk'' ''ek''"
  let ?file = "\<lparr>name = ''data.csv'', bytes = ''a,b''\<rparr>"
  have a: "map_of model_options (selected_model ?ui) = Some ''deepseek-ai/DeepSeek-V3''"
    by (simp add: model_options_def stub_page_def)
  have b: "uploaded ?ui = Some ?file" by (simp add: stub_page_def)
  have c: "read_csv ?libs ?file = Inr [[''a'', ''b''], [''1'', ''2'']]"
    by (simp add: stub_libs_def)
  have d: "analyze ?ui" by (simp add: stub_page_def)
  have e: "together_key_input ?ui \<noteq> []" by (simp add: stub_page_def)
  have f: "e2b_key_input ?ui \<noteq> []" by (simp add: stub_page_def)
  have g: "new_sandbox ?libs (e2b_key_input ?ui) = Inr ?sbx" by (simp add: stub_libs_def)
  have h: "files_write ?sbx (''./'' @ name ?file) ?file = None" by (simp add: stub_sandbox_def)
  from staged_path_is_prompt_path [OF a b c d e f g h] show ?thesis
    by (simp add: stub_page_def)
qed

text \<open>
  Claim C9. When either key field is empty, no run of \<^verbatim>\<open>main\<close> creates a sandbox
  session, writes a file, runs code or calls the completion service; and a run that
  comes to the pressed button (a model picked, a file uploaded and parsed) ends normally
  after showing the error message.
\<close>

theorem missing_key_no_external_call:
  assumes "together_key_input ui = [] \<or> e2b_key_input ui = []"
  shows "filter external_call (fst (main libs ui)) = []
     \<and> (map_of model_options (selected_model ui) \<noteq> None \<and> uploaded ui = Some file
          \<and> read_csv libs file = Inr df \<and> analyze ui \<longrightarrow>
        snd (main libs ui) = Inr ()
        \<and> StError ''Please enter both API keys in the sidebar.'' \<in> set (fst (main libs ui)))"
proof -
  have head: "filter external_call page_head = []"
    by (simp add: page_head_def)
  have quiet: "filter external_call (fst (main libs ui)) = []"
    using assms head
    by (auto simp: main_def Let_def split: option.splits sum.splits)
  have shown: "snd (main libs ui) = Inr ()
        \<and> StError ''Please enter both API keys in the sidebar.'' \<in> set (fst (main libs ui))"
    if "map_of model_options (selected_model ui) \<noteq> None" "uploaded ui = Some file"
      "read_csv libs file = Inr df" "analyze ui"
    using that assms by (auto simp: main_def Let_def)
  from quiet shown show ?thesis by blast
qed

theorem missing_key_no_external_call_witness:
  "filter external_call
     (fst (main
        (stub_libs ''The mean is 4.2.''
           (stub_sandbox \<lparr>written_stdout = [], written_stderr = [],
                           returned = \<lparr>results = [], error = None\<rparr>\<rparr>))
        (stub_page [] ''ek''))) = []
   \<and> StError ''Please enter both API keys in the sidebar.''
      \<in> set (fst (main
        (stub_libs ''The mean is 4.2.''
           (stub_sandbox \<lparr>written_stdout = [], written_stderr = [],
                           returned = \<lparr>results = [], error = None\<rparr>\<rparr>))
        (stub_page [] ''ek'')))
   \<and> StError ''Please enter both API keys in the sidebar.''
      \<in> set (fst (main
        (stub_libs ''The mean is 4.2.''
           (stub_sandbox \<lparr>written_stdout = [], written_stderr = [],
                           returned = \<lparr>results = [], error = None\<rparr>\<rparr>))
        (stub_page ''tk'' [])))"
proof -
  let ?sbx = "stub_sandbox \<lparr>written_stdout = [], written_stderr = [],
                            returned = \<lparr>results = [], error = None\<rparr>\<rparr>"
  let ?libs = "stub_libs ''The mean is 4.2.'' ?sbx"
  let ?file = "\<lparr>name = ''data.csv'', bytes = ''a,b''\<rparr>"
  let ?df = "[[''a'', ''b''], [''1'', ''2'']]"
  have a: "together_key_input (stub_page [] ''ek'') = [] \<or> e2b_key_input (stub_page [] ''ek'') = []"
    by (simp add: stub_page_def)
  have b: "together_key_input (stub_page ''tk'' []) = [] \<or> e2b_key_input (stub_page ''tk'' []) = []"
    by (simp add: stub_page_def)
  have request: "map_of model_options (selected_model (stub_page k1 k2)) \<noteq> None
      \<and> uploaded (stub_page k1 k2) = Some ?file
      \<and> read_csv ?libs ?file = Inr ?df \<and> analyze (stub_page k1 k2)" for k1 k2
    by (simp add: model_options_def stub_page_def stub_libs_def)
  from missing_key_no_external_call [OF a, of ?libs ?file ?df]
    missing_key_no_external_call [OF b, of ?libs ?file ?df]
    request [of "[]" "''ek''"] request [of "''tk''" "[]"]
  show ?thesis by blast
qed

end
